theory Spec2Isabelle
  imports Main "HOL-Library.Word"
begin

unbundle bit_operations_syntax

section \<open>The CAN converter of internal/converter/can/converter.go\<close>

text \<open>
  The source file holds two versions of the package: the legacy one, whose \<open>Decode\<close>
  hands the whole input to \<open>json.Unmarshal\<close> (lines 50-77), and the current one, whose
  \<open>Decode\<close> walks a \<open>fastjson\<close> value by hand (lines 192-266). \<open>Encode\<close>,
  \<open>NewConverter\<close> and \<open>addMessageDb\<close> are the same in both.

  A Go \<open>[]byte\<close> or \<open>string\<close> of text is a \<open>string\<close> here (an Isabelle \<open>char\<close> is
  a byte); a byte of binary payload is an \<open>8 word\<close>.
\<close>

type_synonym byte = "8 word"

subsection \<open>Outcomes of a call\<close>

text \<open>
  A Go call either returns its value with a nil error, returns an error, or panics. A
  panic unwinds through every caller in this file (none of them recovers), so it is an
  outcome of its own and not an error value.
\<close>

datatype panic =
    NilDereference \<comment> \<open>runtime error: invalid memory address or nil pointer dereference\<close>
  | PanicMsg string \<comment> \<open>\<open>panic("...")\<close>\<close>

datatype ('e, 'a) result = is_Ok: Ok 'a | is_Err: Err 'e | is_Panic: Panic panic

subsection \<open>JSON values as the fastjson package holds them\<close>

text \<open>
  \<open>github.com/valyala/fastjson\<close> is a dependency of the repository, not part of it. A
  parsed \<open>*fastjson.Value\<close> is a tree tagged with one of seven types; an object keeps its
  key/value pairs in input order, a number keeps its text, a string its unescaped bytes.
  A \<open>*Value\<close> that may be nil is a \<open>Value option\<close>.
\<close>

datatype Type = TypeNull | TypeObject | TypeArray | TypeString | TypeNumber | TypeTrue | TypeFalse

datatype Value =
    JNull
  | JObject "(string \<times> Value) list"
  | JArray "Value list"
  | JString string
  | JNumber string
  | JTrue
  | JFalse

fun Value_Type :: "Value \<Rightarrow> Type" where
  "Value_Type JNull = TypeNull"
| "Value_Type (JObject kvs) = TypeObject"
| "Value_Type (JArray a) = TypeArray"
| "Value_Type (JString s) = TypeString"
| "Value_Type (JNumber s) = TypeNumber"
| "Value_Type JTrue = TypeTrue"
| "Value_Type JFalse = TypeFalse"

datatype lib_error =
    SyntaxError string \<comment> \<open>whatever the JSON parser reports\<close>
  | DoesntContain Type Type \<comment> \<open>"value doesn't contain <wanted>; it contains <found>"\<close>
  | CannotParseUint string \<comment> \<open>"cannot parse uint <text>"\<close>
  | ErrLength \<comment> \<open>\<open>hex.ErrLength\<close>: odd length hex string\<close>
  | InvalidByteError char \<comment> \<open>\<open>hex.InvalidByteError\<close>\<close>
  | UnmarshalTypeError \<comment> \<open>\<open>json.UnmarshalTypeError\<close>: a value of the wrong type for its field\<close>

text \<open>\<open>(*Object).Get\<close>: the value of the first pair with that key, nil when there is none.\<close>

definition Object_Get :: "(string \<times> Value) list \<Rightarrow> string \<Rightarrow> Value option" where
  "Object_Get kvs key = map_of kvs key"

text \<open>
  \<open>(*Value).Object\<close>, \<open>(*Value).Array\<close> and \<open>(*Value).Uint\<close> start by reading the type
  field of their receiver (\<open>if v.t != TypeObject\<close>): on a nil receiver that read is a
  nil-pointer dereference. Only the \<open>Get...\<close> family of the package checks for nil.
\<close>

fun Object :: "Value option \<Rightarrow> (lib_error, (string \<times> Value) list) result" where
  "Object None = Panic NilDereference"
| "Object (Some (JObject kvs)) = Ok kvs"
| "Object (Some v) = Err (DoesntContain TypeObject (Value_Type v))"

fun Array :: "Value option \<Rightarrow> (lib_error, Value list) result" where
  "Array None = Panic NilDereference"
| "Array (Some (JArray a)) = Ok a"
| "Array (Some v) = Err (DoesntContain TypeArray (Value_Type v))"

definition is_digit :: "char \<Rightarrow> bool" where
  "is_digit c = (48 \<le> (of_char c :: nat) \<and> (of_char c :: nat) \<le> 57)"

definition dec_value :: "string \<Rightarrow> nat" where
  "dec_value s = foldl (\<lambda>d c. d * 10 + ((of_char c :: nat) - 48)) 0 s"

text \<open>
  \<open>fastfloat.ParseUint64\<close>: the value of a non-empty string of decimal digits that
  fits 64 bits, leading zeros included, and an error for every other string.
\<close>

definition ParseUint64 :: "string \<Rightarrow> lib_error + 64 word" where
  "ParseUint64 s =
     (if s \<noteq> [] \<and> list_all is_digit s \<and> dec_value s < 2 ^ 64
      then Inr (word_of_nat (dec_value s)) else Inl (CannotParseUint s))"

text \<open>
  \<open>(*Value).Uint\<close> returns a Go \<open>uint\<close>, which has 64 bits on the 64-bit platforms the
  model is about (there the final "doesn't fit uint" test of the library never fires).
\<close>

fun Uint :: "Value option \<Rightarrow> (lib_error, 64 word) result" where
  "Uint None = Panic NilDereference"
| "Uint (Some (JNumber s)) = (case ParseUint64 s of Inl err \<Rightarrow> Err err | Inr n \<Rightarrow> Ok n)"
| "Uint (Some v) = Err (DoesntContain TypeNumber (Value_Type v))"

text \<open>
  \<open>strconv.Atoi\<close>, as far as \<open>(*Value).Get\<close> uses it to index an array: an optional sign
  and decimal digits, within the range of \<open>int\<close>.
\<close>

definition Atoi :: "string \<Rightarrow> int option" where
  "Atoi s =
     (let neg = (s \<noteq> [] \<and> hd s = CHR ''-'');
          ds = (if s \<noteq> [] \<and> (hd s = CHR ''+'' \<or> hd s = CHR ''-'') then tl s else s)
      in if ds = [] \<or> \<not> list_all is_digit ds then None
         else if neg then (if dec_value ds \<le> 2 ^ 63 then Some (- int (dec_value ds)) else None)
         else (if dec_value ds < 2 ^ 63 then Some (int (dec_value ds)) else None))"

text \<open>
  \<open>(*Value).Get(key)\<close> on a non-nil receiver: a member of an object, an element of an
  array when the key is an index in range, nil otherwise.
\<close>

fun Value_Get :: "Value \<Rightarrow> string \<Rightarrow> Value option" where
  "Value_Get (JObject kvs) key = Object_Get kvs key"
| "Value_Get (JArray a) key =
     (case Atoi key of
        None \<Rightarrow> None
      | Some n \<Rightarrow> if n < 0 \<or> n \<ge> int (length a) then None else Some (a ! nat n))"
| "Value_Get v key = None"

text \<open>
  \<open>(*Value).GetStringBytes()\<close>: the bytes of a string value; a nil slice (length 0) for
  a nil receiver and for every other type. It reports no error.
\<close>

fun GetStringBytes :: "Value option \<Rightarrow> string" where
  "GetStringBytes (Some (JString s)) = s"
| "GetStringBytes v = []"

subsection \<open>encoding/hex\<close>

text \<open>\<open>fromHexChar\<close>, in the arithmetic of Go's \<open>byte\<close>.\<close>

definition fromHexChar :: "char \<Rightarrow> byte option" where
  "fromHexChar c =
     (let n = (of_char c :: byte)
      in if 48 \<le> n \<and> n \<le> 57 then Some (n - 48)
         else if 97 \<le> n \<and> n \<le> 102 then Some (n - 97 + 10)
         else if 65 \<le> n \<and> n \<le> 70 then Some (n - 65 + 10)
         else None)"

definition DecodedLen :: "nat \<Rightarrow> nat" where
  "DecodedLen x = x div 2"

text \<open>
  \<open>hex.Decode(dst, src)\<close> with \<open>dst\<close> of length \<open>DecodedLen (len src)\<close>, as \<open>Decode\<close>
  calls it: the bytes written to \<open>dst\<close>, or the error. A bad character is reported
  before a bad length.
\<close>

fun hex_Decode :: "string \<Rightarrow> lib_error + byte list" where
  "hex_Decode [] = Inr []"
| "hex_Decode [p] =
     (case fromHexChar p of None \<Rightarrow> Inl (InvalidByteError p) | Some a \<Rightarrow> Inl ErrLength)"
| "hex_Decode (p # q # src) =
     (case fromHexChar p of
        None \<Rightarrow> Inl (InvalidByteError p)
      | Some a \<Rightarrow>
          (case fromHexChar q of
             None \<Rightarrow> Inl (InvalidByteError q)
           | Some b \<Rightarrow>
               (case hex_Decode src of
                  Inl err \<Rightarrow> Inl err
                | Inr dst \<Rightarrow> Inr ((push_bit 4 a OR b) # dst))))"

text \<open>The builtin \<open>copy(dst, src)\<close>: the first \<open>min (len dst) (len src)\<close> elements of
  \<open>src\<close> overwrite those of \<open>dst\<close>; the rest of \<open>dst\<close> stays.\<close>

definition copy :: "'a list \<Rightarrow> 'a list \<Rightarrow> 'a list" where
  "copy dst src = take (length dst) src @ drop (length src) dst"

subsection \<open>The data of the package\<close>

text \<open>
  \<open>can.Frame\<close> and \<open>descriptor.Message\<close> are types of \<open>github.com/ngjaying/can\<close>. Of a
  frame the converter writes the 32-bit \<open>ID\<close> and the 8-byte array \<open>Data\<close>; of a message
  it reads the \<open>ID\<close> and calls the method \<open>DecodeToMap\<close>, which is a parameter of the
  model (\<open>'s\<close> stands for the rest of the descriptor, \<open>'v\<close> for a signal's value).
\<close>

record Frame =
  ID :: "32 word"
  Data :: "byte list"

definition zero_Frame :: Frame where
  "zero_Frame = \<lparr>ID = 0, Data = [0, 0, 0, 0, 0, 0, 0, 0]\<rparr>"

record 's Message =
  MessageID :: "32 word"
  Descriptor :: 's

type_synonym 'v signals = "string \<rightharpoonup> 'v"

type_synonym ('s, 'v) DecodeToMap = "'s Message \<Rightarrow> Frame \<Rightarrow> 'v signals \<Rightarrow> 'v signals"

text \<open>A value of \<open>map[string]interface{}\<close> in \<open>packedFrames.Meta\<close>.\<close>

datatype meta_value =
    MFloat64 string \<comment> \<open>\<open>v.GetFloat64()\<close> of the number with this text\<close>
  | MString string \<comment> \<open>\<open>v.String()\<close> of the string with these bytes\<close>
  | MText string \<comment> \<open>the string itself, as \<open>json.Unmarshal\<close> stores it\<close>
  | MBool bool
  | MOther Value \<comment> \<open>what only \<open>json.Unmarshal\<close> stores: null, arrays, objects\<close>

text \<open>A nil map and a nil slice are \<open>None\<close>.\<close>

record packedFrames =
  Meta :: "(string \<rightharpoonup> meta_value) option"
  Frames :: "Frame list option"

record 's Converter =
  messages :: "32 word \<rightharpoonup> 's Message"

datatype decode_error =
    InvalidJson string lib_error
      \<comment> \<open>"invalid frame json `%s` received: %v"\<close>
  | ShouldBeObject string lib_error
      \<comment> \<open>"..., should be object but receive error: %v"\<close>
  | ShouldHaveFramesArray string lib_error
      \<comment> \<open>"..., should have frames array but receive error: %v"\<close>
  | FrameIdShouldBeUint string lib_error
      \<comment> \<open>"..., frame id should be uint but receive error: %v"\<close>
  | FrameDataShouldBeString string lib_error
      \<comment> \<open>"..., frame data should be string but receive error: %v"\<close>
  | FrameDataShouldBeHex string lib_error
      \<comment> \<open>"..., frame data should be hex string but receive error: %v"\<close>
  | NoFrames string
      \<comment> \<open>"invalid frame json `%s`, no frames"\<close>
  | ShouldHaveMetaObject string lib_error
      \<comment> \<open>"..., should have meta object but receive error: %v"\<close>

text \<open>What \<open>conf.Log\<close> is asked to write.\<close>

datatype log_entry =
    WarnUnknownMetaType Type string \<comment> \<open>"unknown type %s for meta %s"\<close>
  | ErrorCannotFindMessage "32 word" \<comment> \<open>"cannot find message %d"\<close>

subsection \<open>Encode\<close>

text \<open>Lines 187-190: the body is \<open>panic("implement me")\<close>, for every receiver and argument.\<close>

definition Encode :: "'s Converter \<Rightarrow> 'x \<Rightarrow> ('e, string) result" where
  "Encode c x = Panic (PanicMsg ''implement me'')"

subsection \<open>Decode, the fastjson version\<close>

text \<open>
  The body of the loop of lines 212-228 for one element \<open>rawFrame\<close>, on the frame
  \<open>pf.Frames[i]\<close>. \<open>err\<close> is nil once the test after \<open>Uint\<close> has passed, and
  \<open>GetStringBytes\<close> does not assign it: the test of line 219 never fires, and
  \<open>FrameDataShouldBeString\<close> is never returned.
\<close>

definition decode_frame :: "string \<Rightarrow> Value \<Rightarrow> Frame \<Rightarrow> (decode_error, Frame) result" where
  "decode_frame b rawFrame frame =
     (case Uint (Value_Get rawFrame ''id'') of
        Panic p \<Rightarrow> Panic p
      | Err err \<Rightarrow> Err (FrameIdShouldBeUint b err)
      | Ok tid \<Rightarrow>
          (let tdata = GetStringBytes (Value_Get rawFrame ''data'')
           in case hex_Decode tdata of
                Inl err \<Rightarrow> Err (FrameDataShouldBeHex b err)
              | Inr decodedData \<Rightarrow>
                  Ok (frame\<lparr>ID := ucast tid, Data := copy (Data frame) decodedData\<rparr>)))"

text \<open>
  The loop itself, from index \<open>i\<close> on, over the slice \<open>pf.Frames\<close>. Line 211 makes
  the slice as long as \<open>rawFrames\<close>, so the index is in range at every step.
\<close>

fun frames_loop ::
  "string \<Rightarrow> Value list \<Rightarrow> nat \<Rightarrow> Frame list \<Rightarrow> (decode_error, Frame list) result" where
  "frames_loop b [] i frames = Ok frames"
| "frames_loop b (rawFrame # rest) i frames =
     (case decode_frame b rawFrame (frames ! i) of
        Panic p \<Rightarrow> Panic p
      | Err e \<Rightarrow> Err e
      | Ok frame \<Rightarrow> frames_loop b rest (Suc i) (frames[i := frame]))"

text \<open>
  \<open>metaObj.Visit\<close> with the callback of lines 240-253, over the pairs in order.
\<close>

fun visit_meta ::
  "(string \<times> Value) list \<Rightarrow> (string \<rightharpoonup> meta_value) \<Rightarrow> log_entry list \<Rightarrow>
   (string \<rightharpoonup> meta_value) \<times> log_entry list" where
  "visit_meta [] m lg = (m, lg)"
| "visit_meta ((k, v) # kvs) m lg =
     (case v of
        JNumber s \<Rightarrow> visit_meta kvs (m(k \<mapsto> MFloat64 s)) lg
      | JString s \<Rightarrow> visit_meta kvs (m(k \<mapsto> MString s)) lg
      | JTrue \<Rightarrow> visit_meta kvs (m(k \<mapsto> MBool True)) lg
      | JFalse \<Rightarrow> visit_meta kvs (m(k \<mapsto> MBool False)) lg
      | _ \<Rightarrow> visit_meta kvs m (lg @ [WarnUnknownMetaType (Value_Type v) k]))"

text \<open>
  Lines 199-254: from the parsed value to the \<open>packedFrames\<close>. \<open>make\<close> never returns
  nil, so the test of line 229 reads a non-nil slice; \<open>Object\<close> returns a non-nil
  pointer whenever it returns no error, so the test of line 238 holds.
\<close>

definition parse_batch ::
  "string \<Rightarrow> Value \<Rightarrow> (decode_error, packedFrames \<times> log_entry list) result" where
  "parse_batch b v =
     (case Object (Some v) of
        Panic p \<Rightarrow> Panic p
      | Err err \<Rightarrow> Err (ShouldBeObject b err)
      | Ok obj \<Rightarrow>
          (case Array (Object_Get obj ''frames'') of
             Panic p \<Rightarrow> Panic p
           | Err err \<Rightarrow> Err (ShouldHaveFramesArray b err)
           | Ok rawFrames \<Rightarrow>
               (case frames_loop b rawFrames 0 (replicate (length rawFrames) zero_Frame) of
                  Panic p \<Rightarrow> Panic p
                | Err e \<Rightarrow> Err e
                | Ok frames \<Rightarrow>
                    (let pf = \<lparr>Meta = None, Frames = Some frames\<rparr>
                     in if Frames pf = None then Err (NoFrames b)
                        else
                          (case Object (Object_Get obj ''meta'') of
                             Panic p \<Rightarrow> Panic p
                           | Err err \<Rightarrow> Err (ShouldHaveMetaObject b err)
                           | Ok metaObj \<Rightarrow>
                               (case visit_meta metaObj Map.empty [] of
                                  (m, lg) \<Rightarrow> Ok (pf\<lparr>Meta := Some m\<rparr>, lg)))))))"

text \<open>
  Lines 256-265 (and 67-76 of the legacy version): the loop over the frames, with the
  result map and the log passed along.
\<close>

fun dispatch ::
  "('s, 'v) DecodeToMap \<Rightarrow> (32 word \<rightharpoonup> 's Message) \<Rightarrow> Frame list \<Rightarrow> 'v signals \<Rightarrow>
   log_entry list \<Rightarrow> 'v signals \<times> log_entry list" where
  "dispatch D mm [] result lg = (result, lg)"
| "dispatch D mm (frame # frames) result lg =
     (case mm (ID frame) of
        None \<Rightarrow> dispatch D mm frames result (lg @ [ErrorCannotFindMessage (ID frame)])
      | Some desc \<Rightarrow> dispatch D mm frames (D desc frame result) lg)"

text \<open>Ranging over a nil slice runs the body no times.\<close>

definition elems :: "'a list option \<Rightarrow> 'a list" where
  "elems s = (case s of None \<Rightarrow> [] | Some xs \<Rightarrow> xs)"

text \<open>\<open>Decode\<close> from line 199 on, for the value \<open>v\<close> that the parser returned.\<close>

definition DecodeValue ::
  "('s, 'v) DecodeToMap \<Rightarrow> 's Converter \<Rightarrow> string \<Rightarrow> Value \<Rightarrow>
   (decode_error, 'v signals) result \<times> log_entry list" where
  "DecodeValue D c b v =
     (case parse_batch b v of
        Panic p \<Rightarrow> (Panic p, [])
      | Err e \<Rightarrow> (Err e, [])
      | Ok (pf, lg) \<Rightarrow>
          (case dispatch D (messages c) (elems (Frames pf)) Map.empty lg of
             (result, lg') \<Rightarrow> (Ok result, lg')))"

text \<open>
  \<open>Decode\<close>, lines 192-266. \<open>ParseBytes\<close> stands for \<open>(*fastjson.Parser).ParseBytes\<close> on
  the fresh parser of line 193.
\<close>

definition Decode ::
  "(string \<Rightarrow> lib_error + Value) \<Rightarrow> ('s, 'v) DecodeToMap \<Rightarrow> 's Converter \<Rightarrow> string \<Rightarrow>
   (decode_error, 'v signals) result \<times> log_entry list" where
  "Decode ParseBytes D c b =
     (case ParseBytes b of
        Inl err \<Rightarrow> (Err (InvalidJson b err), [])
      | Inr v \<Rightarrow> DecodeValue D c b v)"

subsection \<open>Decode, the legacy version\<close>

text \<open>
  Lines 64-76: what the legacy \<open>Decode\<close> does with the \<open>packedFrames\<close> that
  \<open>json.Unmarshal\<close> filled.
\<close>

definition DecodeUnmarshalled ::
  "('s, 'v) DecodeToMap \<Rightarrow> 's Converter \<Rightarrow> string \<Rightarrow> packedFrames \<Rightarrow>
   (decode_error, 'v signals) result \<times> log_entry list" where
  "DecodeUnmarshalled D c b p =
     (if Frames p = None then (Err (NoFrames b), [])
      else
        (case dispatch D (messages c) (elems (Frames p)) Map.empty [] of
           (result, lg) \<Rightarrow> (Ok result, lg)))"


subsection \<open>What json.Unmarshal makes of a batch\<close>

text \<open>
  \<open>encoding/json\<close> and the \<open>UnmarshalJSON\<close> method of \<open>can.Frame\<close> (which the comment
  of lines 59-60 names) are dependencies of the repository. The definitions below give
  the result of \<open>json.Unmarshal(b, p)\<close> on a fresh \<open>packedFrames\<close> for bytes that the
  fastjson parser reads as the value \<open>v\<close> and that \<open>encoding/json\<close> reads as the same
  document, when the keys of the document are those of the wire format (\<open>wire_shape\<close>
  below). They are not meant for other documents: keys are matched to fields without
  regard to case, a repeated key is decoded again, and a frame object may have the
  further keys of the library's frame type.
\<close>

text \<open>
  A number of the JSON grammar: an optional minus, an integer part without leading
  zeros, an optional fraction, an optional exponent. \<open>encoding/json\<close> refuses a
  document with any other number; the fastjson parser does not look that closely.
\<close>

definition skip_digits :: "string \<Rightarrow> string option" where
  "skip_digits s = (if takeWhile is_digit s = [] then None else Some (dropWhile is_digit s))"

definition skip_fraction :: "string \<Rightarrow> string option" where
  "skip_fraction s =
     (case s of
        [] \<Rightarrow> Some s
      | c # t \<Rightarrow> if c = CHR ''.'' then skip_digits t else Some s)"

definition skip_exponent :: "string \<Rightarrow> string option" where
  "skip_exponent s =
     (case s of
        [] \<Rightarrow> Some s
      | c # t \<Rightarrow>
          if c = CHR ''e'' \<or> c = CHR ''E''
          then (case t of
                  [] \<Rightarrow> None
                | d # u \<Rightarrow> if d = CHR ''+'' \<or> d = CHR ''-'' then skip_digits u else skip_digits t)
          else Some s)"

definition json_number :: "string \<Rightarrow> bool" where
  "json_number s =
     (let s1 = (case s of [] \<Rightarrow> s | c # t \<Rightarrow> if c = CHR ''-'' then t else s);
          ip = takeWhile is_digit s1
      in if ip = [] \<or> (hd ip = CHR ''0'' \<and> ip \<noteq> ''0'') then False
         else (case skip_fraction (dropWhile is_digit s1) of
                 None \<Rightarrow> False
               | Some r \<Rightarrow> (case skip_exponent r of None \<Rightarrow> False | Some r' \<Rightarrow> r' = [])))"

primrec numbers_valid :: "Value \<Rightarrow> bool" where
  "numbers_valid JNull = True"
| "numbers_valid (JObject kvs) = list_all snd (map (map_prod id numbers_valid) kvs)"
| "numbers_valid (JArray a) = list_all id (map numbers_valid a)"
| "numbers_valid (JString s) = True"
| "numbers_valid (JNumber s) = json_number s"
| "numbers_valid JTrue = True"
| "numbers_valid JFalse = True"

text \<open>
  A number stored into an \<open>interface{}\<close> goes through \<open>strconv.ParseFloat\<close>, which
  reports a number outside the range of \<open>float64\<close>. \<open>in_range\<close> stands for that test.
\<close>

primrec floats_in_range :: "(string \<Rightarrow> bool) \<Rightarrow> Value \<Rightarrow> bool" where
  "floats_in_range in_range JNull = True"
| "floats_in_range in_range (JObject kvs) =
     list_all snd (map (map_prod id (floats_in_range in_range)) kvs)"
| "floats_in_range in_range (JArray a) = list_all id (map (floats_in_range in_range) a)"
| "floats_in_range in_range (JString s) = True"
| "floats_in_range in_range (JNumber s) = in_range s"
| "floats_in_range in_range JTrue = True"
| "floats_in_range in_range JFalse = True"






text \<open>
  The field \<open>id\<close> of the library's frame (a \<open>uint32\<close>): absent or null leaves 0; a
  number must be written in decimal digits and fit 32 bits.
\<close>

definition unmarshal_id :: "Value option \<Rightarrow> lib_error + 32 word" where
  "unmarshal_id iv =
     (case iv of
        None \<Rightarrow> Inr 0
      | Some JNull \<Rightarrow> Inr 0
      | Some (JNumber s) \<Rightarrow>
          if s \<noteq> [] \<and> list_all is_digit s \<and> dec_value s < 2 ^ 32
          then Inr (word_of_nat (dec_value s)) else Inl UnmarshalTypeError
      | Some _ \<Rightarrow> Inl UnmarshalTypeError)"

text \<open>The field \<open>data\<close> (a \<open>*string\<close>): absent or null leaves nil; otherwise a string.\<close>

definition unmarshal_data :: "Value option \<Rightarrow> lib_error + string option" where
  "unmarshal_data dv =
     (case dv of
        None \<Rightarrow> Inr None
      | Some JNull \<Rightarrow> Inr None
      | Some (JString s) \<Rightarrow> Inr (Some s)
      | Some _ \<Rightarrow> Inl UnmarshalTypeError)"

text \<open>
  \<open>(*can.Frame).UnmarshalJSON\<close> on an element of the array. It is called for null as
  well, which leaves the zero frame. A data string is decoded with
  \<open>hex.DecodeString\<close> and copied into the 8-byte array.
\<close>

definition Frame_UnmarshalJSON :: "Value \<Rightarrow> lib_error + Frame" where
  "Frame_UnmarshalJSON e =
     (case e of
        JNull \<Rightarrow> Inr zero_Frame
      | JObject fkvs \<Rightarrow>
          (case unmarshal_id (map_of fkvs ''id'') of
             Inl err \<Rightarrow> Inl err
           | Inr i \<Rightarrow>
               (case unmarshal_data (map_of fkvs ''data'') of
                  Inl err \<Rightarrow> Inl err
                | Inr None \<Rightarrow> Inr \<lparr>ID = i, Data = Data zero_Frame\<rparr>
                | Inr (Some s) \<Rightarrow>
                    (case hex_Decode s of
                       Inl err \<Rightarrow> Inl err
                     | Inr data \<Rightarrow> Inr \<lparr>ID = i, Data = copy (Data zero_Frame) data\<rparr>)))
      | _ \<Rightarrow> Inl UnmarshalTypeError)"

fun unmarshal_elems :: "Value list \<Rightarrow> lib_error + Frame list" where
  "unmarshal_elems [] = Inr []"
| "unmarshal_elems (e # es) =
     (case Frame_UnmarshalJSON e of
        Inl err \<Rightarrow> Inl err
      | Inr frame \<Rightarrow>
          (case unmarshal_elems es of Inl err \<Rightarrow> Inl err | Inr frames \<Rightarrow> Inr (frame # frames)))"

text \<open>
  The field \<open>frames\<close> (a slice): absent or null leaves nil; an array gives a non-nil
  slice, also when it is empty.
\<close>

definition unmarshal_frames :: "Value option \<Rightarrow> lib_error + Frame list option" where
  "unmarshal_frames fv =
     (case fv of
        None \<Rightarrow> Inr None
      | Some JNull \<Rightarrow> Inr None
      | Some (JArray es) \<Rightarrow>
          (case unmarshal_elems es of Inl err \<Rightarrow> Inl err | Inr frames \<Rightarrow> Inr (Some frames))
      | Some _ \<Rightarrow> Inl UnmarshalTypeError)"

definition meta_of :: "Value \<Rightarrow> meta_value" where
  "meta_of v =
     (case v of
        JNumber s \<Rightarrow> MFloat64 s
      | JString s \<Rightarrow> MText s
      | JTrue \<Rightarrow> MBool True
      | JFalse \<Rightarrow> MBool False
      | _ \<Rightarrow> MOther v)"

text \<open>
  The field \<open>meta\<close> (a map to \<open>interface{}\<close>): absent or null leaves nil; an object
  gives the map of its members, the last one of a repeated key.
\<close>

definition unmarshal_meta ::
  "(string \<Rightarrow> bool) \<Rightarrow> Value option \<Rightarrow> lib_error + (string \<rightharpoonup> meta_value) option" where
  "unmarshal_meta in_range mv =
     (case mv of
        None \<Rightarrow> Inr None
      | Some JNull \<Rightarrow> Inr None
      | Some (JObject mkvs) \<Rightarrow>
          if floats_in_range in_range (JObject mkvs)
          then Inr (Some (map_of (rev (map (map_prod id meta_of) mkvs))))
          else Inl UnmarshalTypeError
      | Some _ \<Rightarrow> Inl UnmarshalTypeError)"

definition json_Unmarshal :: "(string \<Rightarrow> bool) \<Rightarrow> Value \<Rightarrow> lib_error + packedFrames" where
  "json_Unmarshal in_range v =
     (if \<not> numbers_valid v then Inl (SyntaxError ''invalid number'')
      else
        (case v of
           JNull \<Rightarrow> Inr \<lparr>Meta = None, Frames = None\<rparr>
         | JObject kvs \<Rightarrow>
             (case unmarshal_meta in_range (map_of kvs ''meta'') of
                Inl err \<Rightarrow> Inl err
              | Inr m \<Rightarrow>
                  (case unmarshal_frames (map_of kvs ''frames'') of
                     Inl err \<Rightarrow> Inl err
                   | Inr fs \<Rightarrow> Inr \<lparr>Meta = m, Frames = fs\<rparr>))
         | _ \<Rightarrow> Inl UnmarshalTypeError))"

text \<open>
  The legacy \<open>Decode\<close>, lines 50-77, on bytes \<open>b\<close> that \<open>json.Unmarshal\<close> reads as the
  document \<open>v\<close>.
\<close>

definition Decode_legacy_document ::
  "(string \<Rightarrow> bool) \<Rightarrow> ('s, 'v) DecodeToMap \<Rightarrow> 's Converter \<Rightarrow> string \<Rightarrow> Value \<Rightarrow>
   (decode_error, 'v signals) result \<times> log_entry list" where
  "Decode_legacy_document in_range D c b v =
     (case json_Unmarshal in_range v of
        Inl err \<Rightarrow> (Err (InvalidJson b err), [])
      | Inr p \<Rightarrow> DecodeUnmarshalled D c b p)"

subsection \<open>Calls on a running converter\<close>

text \<open>
  What a call \<open>c.Decode(b)\<close> can reach beyond its argument: the converter behind the
  receiver, the descriptors its table points to, and the logger. The parser is the local
  variable of line 193, a zero \<open>fastjson.Parser\<close> in every call; what parsing leaves
  in it is dropped when the call returns.

  \<open>DecodeToMap\<close> has a pointer receiver, so the library's method can write to the
  descriptor as well as to the result map. Here the method is given the descriptor and
  gives back the descriptor it leaves; the table holds the pointer and sees what was
  written.
\<close>

type_synonym ('s, 'v) Method =
  "'s Message \<Rightarrow> Frame \<Rightarrow> 'v signals \<Rightarrow> 'v signals \<times> 's Message"

record 's Runtime =
  converter :: "'s Converter"
  logged :: "log_entry list"

text \<open>Lines 256-265 on the runtime.\<close>

fun dispatch_call ::
  "('s, 'v) Method \<Rightarrow> Frame list \<Rightarrow> 'v signals \<Rightarrow> 's Runtime \<Rightarrow> 'v signals \<times> 's Runtime" where
  "dispatch_call M [] result rt = (result, rt)"
| "dispatch_call M (frame # frames) result rt =
     (case messages (converter rt) (ID frame) of
        None \<Rightarrow>
          dispatch_call M frames result
            (rt\<lparr>logged := logged rt @ [ErrorCannotFindMessage (ID frame)]\<rparr>)
      | Some desc \<Rightarrow>
          (case M desc frame result of
             (result', desc') \<Rightarrow>
               dispatch_call M frames result'
                 (rt\<lparr>converter :=
                      (converter rt)\<lparr>messages := (messages (converter rt))(ID frame \<mapsto> desc')\<rparr>\<rparr>)))"

text \<open>
  Lines 192-266 on the runtime. \<open>p\<close> is the zero parser and \<open>ParseBytes\<close> the library's
  method on it, giving its result and the parser it leaves.
\<close>

definition Decode_call ::
  "'p \<Rightarrow> ('p \<Rightarrow> string \<Rightarrow> (lib_error + Value) \<times> 'p) \<Rightarrow> ('s, 'v) Method \<Rightarrow> string \<Rightarrow>
   's Runtime \<Rightarrow> (decode_error, 'v signals) result \<times> 's Runtime" where
  "Decode_call p ParseBytes M b rt =
     (case ParseBytes p b of
        (Inl err, p') \<Rightarrow> (Err (InvalidJson b err), rt)
      | (Inr v, p') \<Rightarrow>
          (case parse_batch b v of
             Panic x \<Rightarrow> (Panic x, rt)
           | Err e \<Rightarrow> (Err e, rt)
           | Ok (pf, lg) \<Rightarrow>
               (case dispatch_call M (elems (Frames pf)) Map.empty
                       (rt\<lparr>logged := logged rt @ lg\<rparr>) of
                  (result, rt') \<Rightarrow> (Ok result, rt'))))"

text \<open>A sequence of calls, one after the other, on the runtime the last one left.\<close>

fun Decode_calls ::
  "'p \<Rightarrow> ('p \<Rightarrow> string \<Rightarrow> (lib_error + Value) \<times> 'p) \<Rightarrow> ('s, 'v) Method \<Rightarrow> string list \<Rightarrow>
   's Runtime \<Rightarrow> 's Runtime" where
  "Decode_calls p ParseBytes M [] rt = rt"
| "Decode_calls p ParseBytes M (b # bs) rt =
     Decode_calls p ParseBytes M bs (snd (Decode_call p ParseBytes M b rt))"

text \<open>
  The contract of the library's method (specification, section 6): it writes into the
  result map and leaves the descriptor as it was.
\<close>

definition read_only :: "('s, 'v) Method \<Rightarrow> bool" where
  "read_only M = (\<forall>desc frame result. snd (M desc frame result) = desc)"

subsection \<open>Building the message table\<close>

text \<open>The loop of lines 326-330 over \<open>c.Database.Messages\<close>, on the table \<open>mm\<close>.\<close>

fun add_messages ::
  "'s Message list \<Rightarrow> (32 word \<rightharpoonup> 's Message) \<Rightarrow> (32 word \<rightharpoonup> 's Message)" where
  "add_messages [] mm = mm"
| "add_messages (m # ms) mm =
     add_messages ms (if mm (MessageID m) = None then mm(MessageID m \<mapsto> m) else mm)"

text \<open>
  \<open>addMessageDb\<close>, lines 321-332. \<open>Compile\<close> stands for \<open>generate.Compile\<close>, giving the
  messages of the compiled database or an error. The Go function updates \<open>mm\<close> in
  place; the model returns the updated table.
\<close>

definition addMessageDb ::
  "(string \<Rightarrow> string \<Rightarrow> 'e + 's Message list) \<Rightarrow> (32 word \<rightharpoonup> 's Message) \<Rightarrow> string \<Rightarrow> string \<Rightarrow>
   'e + (32 word \<rightharpoonup> 's Message)" where
  "addMessageDb Compile mm dbcPath dbcContent =
     (case Compile dbcPath dbcContent of
        Inl err \<Rightarrow> Inl err
      | Inr msgs \<Rightarrow> Inr (add_messages msgs mm))"

text \<open>
  The loop of lines 292-305 in \<open>NewConverter\<close> over the \<open>.dbc\<close> files the directory
  walk found, in that order. \<open>Read\<close> stands for \<open>os.Open\<close> and \<open>f.Read\<close>: the bytes
  \<open>b1[:n]\<close> of the file, or the error.
\<close>

fun load_files ::
  "(string \<Rightarrow> 'e + string) \<Rightarrow> (string \<Rightarrow> string \<Rightarrow> 'e + 's Message list) \<Rightarrow> string list \<Rightarrow>
   (32 word \<rightharpoonup> 's Message) \<Rightarrow> 'e + (32 word \<rightharpoonup> 's Message)" where
  "load_files Read Compile [] mm = Inr mm"
| "load_files Read Compile (file # files) mm =
     (case Read file of
        Inl err \<Rightarrow> Inl err
      | Inr content \<Rightarrow>
          (case addMessageDb Compile mm file content of
             Inl err \<Rightarrow> Inl err
           | Inr mm' \<Rightarrow> load_files Read Compile files mm'))"

subsection \<open>Notions the properties are stated with\<close>

text \<open>The messages of a list of sources, in the order they are compiled.\<close>

definition compiled_messages ::
  "(string \<Rightarrow> 'e + string) \<Rightarrow> (string \<Rightarrow> string \<Rightarrow> 'e + 's Message list) \<Rightarrow> string list \<Rightarrow>
   's Message list" where
  "compiled_messages Read Compile files =
     concat (map (\<lambda>file.
       case Read file of
         Inl err \<Rightarrow> []
       | Inr content \<Rightarrow> (case Compile file content of Inl err \<Rightarrow> [] | Inr msgs \<Rightarrow> msgs)) files)"

text \<open>Whether a source is read and compiled without an error.\<close>

definition compiles ::
  "(string \<Rightarrow> 'e + string) \<Rightarrow> (string \<Rightarrow> string \<Rightarrow> 'e + 's Message list) \<Rightarrow> string \<Rightarrow> bool" where
  "compiles Read Compile file =
     (case Read file of
        Inl err \<Rightarrow> False
      | Inr content \<Rightarrow> (case Compile file content of Inl err \<Rightarrow> False | Inr msgs \<Rightarrow> True))"

text \<open>The first message of a list with a given ID.\<close>

definition first_with_ID :: "'s Message list \<Rightarrow> 32 word \<Rightarrow> 's Message option" where
  "first_with_ID ms i = find (\<lambda>m. MessageID m = i) ms"

text \<open>Whether the table has a schema for a frame.\<close>

definition known :: "(32 word \<rightharpoonup> 's Message) \<Rightarrow> Frame \<Rightarrow> bool" where
  "known mm frame = (mm (ID frame) \<noteq> None)"

text \<open>
  The signals of a list of frames that all have a schema: each frame's schema writes
  into the map, in order.
\<close>

fun extract_all ::
  "('s, 'v) DecodeToMap \<Rightarrow> (32 word \<rightharpoonup> 's Message) \<Rightarrow> Frame list \<Rightarrow> 'v signals \<Rightarrow> 'v signals" where
  "extract_all D mm [] result = result"
| "extract_all D mm (frame # frames) result =
     extract_all D mm frames (D (the (mm (ID frame))) frame result)"

text \<open>The byte that two hexadecimal digits stand for, and the bytes of a hex string.\<close>

definition hex_digit :: "char \<Rightarrow> nat option" where
  "hex_digit c =
     (let n = (of_char c :: nat)
      in if 48 \<le> n \<and> n \<le> 57 then Some (n - 48)
         else if 97 \<le> n \<and> n \<le> 102 then Some (n - 87)
         else if 65 \<le> n \<and> n \<le> 70 then Some (n - 55)
         else None)"

definition is_hex :: "char \<Rightarrow> bool" where
  "is_hex c = (hex_digit c \<noteq> None)"

fun hex_bytes :: "string \<Rightarrow> byte list" where
  "hex_bytes (p # q # src) = word_of_nat (16 * the (hex_digit p) + the (hex_digit q)) # hex_bytes src"
| "hex_bytes src = []"






text \<open>The first eight bytes of a payload, padded with zero bytes to eight.\<close>

definition payload8 :: "byte list \<Rightarrow> byte list" where
  "payload8 bs = take 8 bs @ replicate (8 - length bs) 0"

subsection \<open>A small converter to evaluate on\<close>

text \<open>
  One message, ID 100, whose schema stores the payload of the frame under the name of
  its only signal.
\<close>

definition example_DecodeToMap :: "(string, byte list) DecodeToMap" where
  "example_DecodeToMap m f result = result(Descriptor m \<mapsto> Data f)"

definition example_Converter :: "string Converter" where
  "example_Converter = \<lparr>messages = [100 \<mapsto> \<lparr>MessageID = 100, Descriptor = ''RPM''\<rparr>]\<rparr>"

section \<open>Properties\<close>

subsection \<open>Auxiliary facts\<close>

lemmas eval_defs =
  DecodeValue_def parse_batch_def decode_frame_def Object_Get_def zero_Frame_def
  ParseUint64_def is_digit_def dec_value_def fromHexChar_def copy_def elems_def
  example_Converter_def example_DecodeToMap_def

text \<open>The frame loop handles its elements one by one and leaves the other frames alone.\<close>

lemma frames_loop_elementwise:
  "i + length raw \<le> length frames \<Longrightarrow> frames_loop b raw i frames = Ok fs \<Longrightarrow>
   length fs = length frames \<and>
   (\<forall>k<length raw. decode_frame b (raw ! k) (frames ! (i + k)) = Ok (fs ! (i + k))) \<and>
   (\<forall>j<i. fs ! j = frames ! j)"
proof (induction raw arbitrary: i frames)
  case Nil
  then show ?case by simp
next
  case (Cons rawFrame rest)
  from Cons.prems(2) obtain frame where
    df: "decode_frame b rawFrame (frames ! i) = Ok frame" and
    lp: "frames_loop b rest (Suc i) (frames[i := frame]) = Ok fs"
    by (auto split: result.splits)
  from Cons.prems(1) have len: "Suc i + length rest \<le> length (frames[i := frame])" by simp
  from Cons.IH[OF len lp] have
    l: "length fs = length frames" and
    el: "\<And>k. k < length rest \<Longrightarrow>
           decode_frame b (rest ! k) (frames[i := frame] ! (Suc i + k)) = Ok (fs ! (Suc i + k))" and
    keep: "\<And>j. j < Suc i \<Longrightarrow> fs ! j = frames[i := frame] ! j"
    by auto
  from Cons.prems(1) have ilt: "i < length frames" by simp
  have "decode_frame b ((rawFrame # rest) ! k) (frames ! (i + k)) = Ok (fs ! (i + k))"
    if "k < length (rawFrame # rest)" for k
  proof (cases k)
    case 0
    with keep[of i] ilt df show ?thesis by simp
  next
    case (Suc k')
    with that el[of k'] show ?thesis by simp
  qed
  moreover have "fs ! j = frames ! j" if "j < i" for j
    using keep[of j] that by simp
  ultimately show ?case using l by blast
qed

lemma frames_loop_fresh:
  assumes "frames_loop b raw 0 (replicate (length raw) zero_Frame) = Ok fs" and "i < length raw"
  shows "length fs = length raw \<and> decode_frame b (raw ! i) zero_Frame = Ok (fs ! i)"
  using frames_loop_elementwise[of 0 raw "replicate (length raw) zero_Frame" b fs] assms
  by auto

lemma parse_batch_frames:
  "parse_batch b v = Ok (pf, lg) \<Longrightarrow> \<exists>frames. Frames pf = Some frames"
  by (auto simp: parse_batch_def Let_def split: result.splits prod.splits)

text \<open>The dispatch loop: the known frames write their signals, the others are logged.\<close>

lemma dispatch_filter:
  "dispatch D mm frames result lg =
     (extract_all D mm (filter (known mm) frames) result,
      lg @ map (\<lambda>frame. ErrorCannotFindMessage (ID frame))
             (filter (\<lambda>frame. \<not> known mm frame) frames))"
  by (induction frames arbitrary: result lg) (auto simp: known_def)

text \<open>Hexadecimal digits: Go's byte arithmetic against the digit's value.\<close>

lemma unat_of_char: "unat (of_char c :: byte) = (of_char c :: nat)"
proof -
  have "(of_char c :: byte) = word_of_nat (of_char c)"
    by (simp add: of_nat_of_char)
  then have "unat (of_char c :: byte) = (of_char c :: nat) mod 2 ^ LENGTH(8)"
    by (simp only: unat_of_nat)
  then show ?thesis by simp
qed

lemma byte_range:
  "(a \<le> (of_char c :: byte) \<and> (of_char c :: byte) \<le> b) =
   (unat a \<le> (of_char c :: nat) \<and> (of_char c :: nat) \<le> unat b)"
  by (simp add: word_le_nat_alt unat_of_char)

lemma byte_sub:
  "k \<le> (of_char c :: nat) \<Longrightarrow> k < 256 \<Longrightarrow>
   (of_char c :: byte) - word_of_nat k = word_of_nat (of_char c - k)"
  by (simp add: of_nat_of_char)

lemma fromHexChar_hex_digit: "fromHexChar c = map_option word_of_nat (hex_digit c)"
proof -
  have d: "48 \<le> (of_char c :: nat) \<Longrightarrow> (of_char c :: byte) - 48 = word_of_nat (of_char c - 48)"
    using byte_sub[of 48 c] by simp
  have l: "97 \<le> (of_char c :: nat) \<Longrightarrow>
           (of_char c :: byte) - 97 + 10 = word_of_nat (of_char c - 87)"
    using byte_sub[of 97 c] by simp
  have u: "65 \<le> (of_char c :: nat) \<Longrightarrow>
           (of_char c :: byte) - 65 + 10 = word_of_nat (of_char c - 55)"
    using byte_sub[of 65 c] by simp
  show ?thesis
    unfolding fromHexChar_def hex_digit_def Let_def
    using d l u byte_range[of 48 c 57] byte_range[of 97 c 102] byte_range[of 65 c 70]
    by simp
qed

lemma hex_digit_less: "hex_digit c = Some n \<Longrightarrow> n < 16"
  by (auto simp: hex_digit_def Let_def split: if_splits)

lemma nibbles:
  assumes "x < 16" "y < 16"
  shows "push_bit 4 (word_of_nat x :: byte) OR word_of_nat y = word_of_nat (16 * x + y)"
proof -
  have tb: "take_bit 4 y = y"
    using assms(2) by (simp add: take_bit_eq_mod)
  have y: "(word_of_nat y :: byte) = take_bit 4 (word_of_nat y)"
    by (simp only: take_bit_of_nat tb)
  have "push_bit 4 (word_of_nat x :: byte) AND word_of_nat y = 0"
    by (subst y, rule bit_eqI) (auto simp: bit_simps)
  then have "push_bit 4 (word_of_nat x :: byte) OR word_of_nat y =
             push_bit 4 (word_of_nat x) + word_of_nat y"
    by (simp add: disjunctive_add_eq_or)
  then show ?thesis by (simp add: push_bit_eq_mult)
qed

text \<open>\<open>hex.Decode\<close> succeeds exactly on the even-length strings of hexadecimal digits.\<close>

lemma hex_Decode_valid:
  "even (length s) \<Longrightarrow> list_all is_hex s \<Longrightarrow> hex_Decode s = Inr (hex_bytes s)"
proof (induction s rule: hex_Decode.induct)
  case 1
  then show ?case by simp
next
  case (2 p)
  then show ?case by simp
next
  case (3 p q src)
  from "3.prems" obtain x y where x: "hex_digit p = Some x" and y: "hex_digit q = Some y"
    by (auto simp: is_hex_def)
  from "3.prems" have rest: "even (length src)" "list_all is_hex src" by simp_all
  have "hex_Decode src = Inr (hex_bytes src)"
    using "3.IH"[of "word_of_nat x" "word_of_nat y"] rest x y
    by (simp add: fromHexChar_hex_digit)
  then show ?case
    using x y nibbles[OF hex_digit_less[OF x] hex_digit_less[OF y]]
    by (simp add: fromHexChar_hex_digit)
qed

lemma hex_Decode_Inr:
  "hex_Decode s = Inr bs \<Longrightarrow> even (length s) \<and> list_all is_hex s"
proof (induction s arbitrary: bs rule: hex_Decode.induct)
  case 1
  then show ?case by simp
next
  case (2 p)
  then show ?case by (simp split: option.splits)
next
  case (3 p q src)
  from "3.prems" obtain a b dst where
    a: "fromHexChar p = Some a" and b: "fromHexChar q = Some b" and r: "hex_Decode src = Inr dst"
    by (auto split: option.splits sum.splits)
  from "3.IH"[OF a b r] a b show ?case
    by (auto simp: is_hex_def fromHexChar_hex_digit)
qed

lemma length_hex_bytes: "length (hex_bytes s) = DecodedLen (length s)"
  by (induction s rule: hex_bytes.induct) (simp_all add: DecodedLen_def)

lemma copy_zero: "copy (Data zero_Frame) bs = payload8 bs"
proof -
  have "Data zero_Frame = replicate 8 0"
    by (simp add: zero_Frame_def numeral_eq_Suc)
  then show ?thesis by (simp add: copy_def payload8_def)
qed

lemma payload8_nth:
  "length (payload8 bs) = 8 \<and>
   (\<forall>j<8. payload8 bs ! j = (if j < length bs then bs ! j else 0))"
  by (auto simp: payload8_def nth_append)

text \<open>The table after a source is merged, and after a list of sources is.\<close>

lemma add_messages_lookup:
  "add_messages ms mm i = (case mm i of Some m \<Rightarrow> Some m | None \<Rightarrow> first_with_ID ms i)"
  by (induction ms arbitrary: mm) (auto simp: first_with_ID_def split: option.splits)

lemma first_with_ID_append:
  "first_with_ID (xs @ ys) i =
     (case first_with_ID xs i of Some m \<Rightarrow> Some m | None \<Rightarrow> first_with_ID ys i)"
  by (induction xs) (auto simp: first_with_ID_def)

lemma load_files_lookup:
  "list_all (compiles Read Compile) files \<Longrightarrow>
   \<exists>mm. load_files Read Compile files mm0 = Inr mm \<and>
     (\<forall>i. mm i = (case mm0 i of
                    Some m \<Rightarrow> Some m
                  | None \<Rightarrow> first_with_ID (compiled_messages Read Compile files) i))"
proof (induction files arbitrary: mm0)
  case Nil
  then show ?case
    by (simp add: compiled_messages_def first_with_ID_def split: option.splits)
next
  case (Cons f files)
  from Cons.prems obtain content msgs where
    rd: "Read f = Inr content" and cp: "Compile f content = Inr msgs"
    by (auto simp: compiles_def split: sum.splits)
  from Cons.prems have rest: "list_all (compiles Read Compile) files" by simp
  from Cons.IH[OF rest, of "add_messages msgs mm0"] obtain mm where
    mm: "load_files Read Compile files (add_messages msgs mm0) = Inr mm" and
    look: "\<And>i. mm i = (case add_messages msgs mm0 i of
                         Some m \<Rightarrow> Some m
                       | None \<Rightarrow> first_with_ID (compiled_messages Read Compile files) i)"
    by blast
  have cm: "compiled_messages Read Compile (f # files) =
            msgs @ compiled_messages Read Compile files"
    by (simp add: compiled_messages_def rd cp)
  have "load_files Read Compile (f # files) mm0 = Inr mm"
    by (simp add: rd cp addMessageDb_def mm)
  moreover have "mm i = (case mm0 i of
                           Some m \<Rightarrow> Some m
                         | None \<Rightarrow> first_with_ID (compiled_messages Read Compile (f # files)) i)"
    for i
    by (simp add: look cm add_messages_lookup first_with_ID_append split: option.splits)
  ultimately show ?case by blast
qed

text \<open>What survives of the checks on a frame and on \<open>meta\<close>.\<close>

lemma meta_absent_never_succeeds:
  "Object_Get kvs ''meta'' = None \<Longrightarrow> \<not> is_Ok (fst (DecodeValue D c b (JObject kvs)))"
  by (auto simp: DecodeValue_def parse_batch_def Let_def split: result.splits prod.splits)

lemma meta_not_object_is_error:
  assumes "Object_Get kvs ''frames'' = Some (JArray raw)"
    and "frames_loop b raw 0 (replicate (length raw) zero_Frame) = Ok fs"
    and "Object_Get kvs ''meta'' = Some mv" and "Value_Type mv \<noteq> TypeObject"
  shows "DecodeValue D c b (JObject kvs) =
           (Err (ShouldHaveMetaObject b (DoesntContain TypeObject (Value_Type mv))), [])"
  using assms by (cases mv) (simp_all add: DecodeValue_def parse_batch_def)

lemma bad_hex_is_error:
  assumes "Uint (Value_Get rawFrame ''id'') = Ok tid"
    and "Value_Get rawFrame ''data'' = Some (JString s)"
    and "odd (length s) \<or> \<not> list_all is_hex s"
  shows "\<exists>err. decode_frame b rawFrame frame = Err (FrameDataShouldBeHex b err)"
proof (cases "hex_Decode s")
  case (Inl err)
  with assms show ?thesis by (simp add: decode_frame_def)
next
  case (Inr bs)
  from hex_Decode_Inr[OF Inr] assms(3) show ?thesis by simp
qed

lemma Uint_Ok:
  assumes "Uint (Some (JNumber s)) = Ok tid"
  shows "s \<noteq> [] \<and> list_all is_digit s \<and> dec_value s < 2 ^ 64 \<and>
         tid = word_of_nat (dec_value s)"
  using assms by (simp add: ParseUint64_def split: if_splits)

text \<open>The ID of a decoded frame is the number of the \<open>id\<close> field modulo \<open>2 ^ 32\<close>.\<close>

lemma frame_id_is_value_mod:
  assumes "Value_Get rawFrame ''id'' = Some (JNumber s)"
    and "decode_frame b rawFrame frame = Ok f"
  shows "unat (ID f) = dec_value s mod 2 ^ 32"
proof -
  from assms obtain tid where u: "Uint (Some (JNumber s)) = Ok tid" and i: "ID f = ucast tid"
    by (auto simp: decode_frame_def Let_def split: result.splits sum.splits)
  from Uint_Ok[OF u] have lt: "dec_value s < 2 ^ 64" and t: "tid = word_of_nat (dec_value s)"
    by simp_all
  have "unat tid = dec_value s"
    using lt by (simp add: t unat_of_nat)
  then show ?thesis
    by (simp add: i unsigned_ucast_eq take_bit_eq_mod)
qed















lemmas legacy_eval_defs =
  Decode_legacy_document_def json_Unmarshal_def unmarshal_meta_def unmarshal_frames_def
  Frame_UnmarshalJSON_def unmarshal_id_def unmarshal_data_def DecodeUnmarshalled_def
  json_number_def skip_digits_def skip_fraction_def skip_exponent_def


text \<open>
  Inputs on which the two versions part, each as both libraries read it: a batch
  without \<open>meta\<close>, a \<open>data\<close> that is a number, an \<open>id\<close> of \<open>2 ^ 32 + 100\<close>, a frame
  without \<open>id\<close>, an \<open>id\<close> written with a leading zero, a null \<open>id\<close> and a null
  frame.
\<close>

lemma json_Unmarshal_null_meta:
  "json_Unmarshal in_range (JObject [(''meta'', JNull), (''frames'', JArray [])]) =
     Inr \<lparr>Meta = None, Frames = Some []\<rparr>"
  by (simp add: legacy_eval_defs)

lemma versions_differ_absent_meta:
  \<open>fst (Decode_legacy_document in_range example_DecodeToMap example_Converter
          ''{"frames":[{"id":100,"data":"00000a00"}]}''
          (JObject [(''frames'', JArray
             [JObject [(''id'', JNumber ''100''), (''data'', JString ''00000a00'')]])]))
     = Ok [''RPM'' \<mapsto> [0, 0, 10, 0, 0, 0, 0, 0]] \<and>
   fst (DecodeValue example_DecodeToMap example_Converter
          ''{"frames":[{"id":100,"data":"00000a00"}]}''
          (JObject [(''frames'', JArray
             [JObject [(''id'', JNumber ''100''), (''data'', JString ''00000a00'')]])]))
     = Panic NilDereference\<close>
  by (simp add: legacy_eval_defs eval_defs)

lemma versions_differ_data_not_string:
  \<open>fst (Decode_legacy_document in_range example_DecodeToMap example_Converter
          ''{"meta":{},"frames":[{"id":100,"data":5}]}''
          (JObject [(''meta'', JObject []), (''frames'', JArray
             [JObject [(''id'', JNumber ''100''), (''data'', JNumber ''5'')]])]))
     = Err (InvalidJson ''{"meta":{},"frames":[{"id":100,"data":5}]}'' UnmarshalTypeError) \<and>
   fst (DecodeValue example_DecodeToMap example_Converter
          ''{"meta":{},"frames":[{"id":100,"data":5}]}''
          (JObject [(''meta'', JObject []), (''frames'', JArray
             [JObject [(''id'', JNumber ''100''), (''data'', JNumber ''5'')]])]))
     = Ok [''RPM'' \<mapsto> [0, 0, 0, 0, 0, 0, 0, 0]]\<close>
  by (simp add: legacy_eval_defs eval_defs)

lemma versions_differ_large_id:
  \<open>fst (Decode_legacy_document in_range example_DecodeToMap example_Converter
          ''{"meta":{},"frames":[{"id":4294967396,"data":"00000a00"}]}''
          (JObject [(''meta'', JObject []), (''frames'', JArray
             [JObject [(''id'', JNumber ''4294967396''), (''data'', JString ''00000a00'')]])]))
     = Err (InvalidJson ''{"meta":{},"frames":[{"id":4294967396,"data":"00000a00"}]}''
              UnmarshalTypeError) \<and>
   fst (DecodeValue example_DecodeToMap example_Converter
          ''{"meta":{},"frames":[{"id":4294967396,"data":"00000a00"}]}''
          (JObject [(''meta'', JObject []), (''frames'', JArray
             [JObject [(''id'', JNumber ''4294967396''), (''data'', JString ''00000a00'')]])]))
     = Ok [''RPM'' \<mapsto> [0, 0, 10, 0, 0, 0, 0, 0]]\<close>
  by (simp add: legacy_eval_defs eval_defs)

lemma versions_differ_absent_id:
  \<open>fst (Decode_legacy_document in_range example_DecodeToMap example_Converter
          ''{"meta":{},"frames":[{"data":"ff"}]}''
          (JObject [(''meta'', JObject []), (''frames'', JArray
             [JObject [(''data'', JString ''ff'')]])]))
     = Ok Map.empty \<and>
   fst (DecodeValue example_DecodeToMap example_Converter
          ''{"meta":{},"frames":[{"data":"ff"}]}''
          (JObject [(''meta'', JObject []), (''frames'', JArray
             [JObject [(''data'', JString ''ff'')]])]))
     = Panic NilDereference\<close>
  by (simp add: legacy_eval_defs eval_defs)

lemma versions_differ_leading_zero:
  \<open>fst (Decode_legacy_document in_range example_DecodeToMap example_Converter
          ''{"meta":{},"frames":[{"id":0100,"data":"00000a00"}]}''
          (JObject [(''meta'', JObject []), (''frames'', JArray
             [JObject [(''id'', JNumber ''0100''), (''data'', JString ''00000a00'')]])]))
     = Err (InvalidJson ''{"meta":{},"frames":[{"id":0100,"data":"00000a00"}]}''
              (SyntaxError ''invalid number'')) \<and>
   fst (DecodeValue example_DecodeToMap example_Converter
          ''{"meta":{},"frames":[{"id":0100,"data":"00000a00"}]}''
          (JObject [(''meta'', JObject []), (''frames'', JArray
             [JObject [(''id'', JNumber ''0100''), (''data'', JString ''00000a00'')]])]))
     = Ok [''RPM'' \<mapsto> [0, 0, 10, 0, 0, 0, 0, 0]]\<close>
  by (simp add: legacy_eval_defs eval_defs)

lemma versions_differ_null_id:
  \<open>fst (Decode_legacy_document in_range example_DecodeToMap example_Converter
          ''{"meta":{},"frames":[{"id":null,"data":"ff"}]}''
          (JObject [(''meta'', JObject []), (''frames'', JArray
             [JObject [(''id'', JNull), (''data'', JString ''ff'')]])]))
     = Ok Map.empty \<and>
   fst (DecodeValue example_DecodeToMap example_Converter
          ''{"meta":{},"frames":[{"id":null,"data":"ff"}]}''
          (JObject [(''meta'', JObject []), (''frames'', JArray
             [JObject [(''id'', JNull), (''data'', JString ''ff'')]])]))
     = Err (FrameIdShouldBeUint ''{"meta":{},"frames":[{"id":null,"data":"ff"}]}''
              (DoesntContain TypeNumber TypeNull))\<close>
  by (simp add: legacy_eval_defs eval_defs)

lemma versions_differ_null_frame:
  \<open>fst (Decode_legacy_document in_range example_DecodeToMap example_Converter
          ''{"meta":{},"frames":[null]}''
          (JObject [(''meta'', JObject []), (''frames'', JArray [JNull])]))
     = Ok Map.empty \<and>
   fst (DecodeValue example_DecodeToMap example_Converter
          ''{"meta":{},"frames":[null]}''
          (JObject [(''meta'', JObject []), (''frames'', JArray [JNull])]))
     = Panic NilDereference\<close>
  by (simp add: legacy_eval_defs eval_defs)

subsection \<open>The claims\<close>

text \<open>
  C1, at an input that omits \<open>meta\<close>. The parser's value for the bytes
  \<open>{"frames":[{"id":100,"data":"00000a00"}]}\<close> has no \<open>meta\<close> member, so
  \<open>obj.Get("meta")\<close> is nil and \<open>Object()\<close> is called on nil (line 234): \<open>Decode\<close>
  panics with a nil-pointer dereference and returns nothing, although the frame is
  valid and its message is known.
\<close>

theorem meta_absent_panics:
  \<open>DecodeValue example_DecodeToMap example_Converter
     ''{"frames":[{"id":100,"data":"00000a00"}]}''
     (JObject [(''frames'', JArray
        [JObject [(''id'', JNumber ''100''), (''data'', JString ''00000a00'')]])])
   = (Panic NilDereference, [])\<close>
  by (simp add: eval_defs)

text \<open>
  C2, as the code has it. For every converter and every argument, \<open>Encode\<close> panics with
  the message "implement me": it returns neither bytes nor an error value.
\<close>

theorem Encode_panics: "Encode c x = Panic (PanicMsg ''implement me'')"
  by (simp add: Encode_def)

text \<open>
  C2, as the specification has it, fails: on the example converter and the argument
  \<open>()\<close>, the outcome of \<open>Encode\<close> is not an error value.
\<close>

theorem Encode_returns_no_error:
  "\<not> is_Err (Encode example_Converter () :: (decode_error, string) result)"
  by (simp add: Encode_def)

text \<open>
  C3, as the code has it. For every batch that has a \<open>frames\<close> member: when the member
  is not a JSON array, \<open>Decode\<close> returns the schema error "should have frames array";
  when it is the empty array and \<open>meta\<close> is a JSON object, \<open>Decode\<close> succeeds with the
  empty result.
\<close>

theorem frames_not_array_fails_empty_array_succeeds:
  assumes "Object_Get kvs ''frames'' = Some fv"
  shows "(Value_Type fv \<noteq> TypeArray \<longrightarrow>
            DecodeValue D c b (JObject kvs) =
              (Err (ShouldHaveFramesArray b (DoesntContain TypeArray (Value_Type fv))), [])) \<and>
         (fv = JArray [] \<and> Value_Type mv = TypeObject \<and> Object_Get kvs ''meta'' = Some mv \<longrightarrow>
            fst (DecodeValue D c b (JObject kvs)) = Ok Map.empty)"
  using assms
  by (cases fv; cases mv) (simp_all add: DecodeValue_def parse_batch_def elems_def split: prod.splits)

text \<open>Both parts of the statement at an input: \<open>frames\<close> a string, and \<open>frames\<close> empty.\<close>

theorem frames_not_array_fails_empty_array_succeeds_witness:
  "DecodeValue example_DecodeToMap example_Converter ''b'' (JObject [(''frames'', JString ''none'')]) =
     (Err (ShouldHaveFramesArray ''b'' (DoesntContain TypeArray TypeString)), []) \<and>
   fst (DecodeValue example_DecodeToMap example_Converter ''b''
          (JObject [(''meta'', JObject [(''ts'', JNumber ''1'')]), (''frames'', JArray [])])) =
     Ok Map.empty"
  using frames_not_array_fails_empty_array_succeeds
          [where kvs = "[(''frames'', JString ''none'')]" and fv = "JString ''none''" and mv = JNull
             and D = example_DecodeToMap and c = example_Converter and b = "''b''"]
        frames_not_array_fails_empty_array_succeeds
          [where kvs = "[(''meta'', JObject [(''ts'', JNumber ''1'')]), (''frames'', JArray [])]"
             and fv = "JArray []" and mv = "JObject [(''ts'', JNumber ''1'')]"
             and D = example_DecodeToMap and c = example_Converter and b = "''b''"]
  by (simp add: Object_Get_def)

text \<open>
  C3, as the specification has it, fails: for the bytes \<open>{"meta":{},"frames":[]}\<close>,
  whose \<open>frames\<close> is the empty array, \<open>Decode\<close> returns the empty result and no error.
\<close>

theorem empty_frames_succeed:
  \<open>fst (DecodeValue example_DecodeToMap example_Converter ''{"meta":{},"frames":[]}''
     (JObject [(''meta'', JObject []), (''frames'', JArray [])])) = Ok Map.empty\<close>
  by (simp add: eval_defs)

text \<open>
  C4, at two inputs. A frame whose \<open>data\<close> is the number 5, and a frame with no \<open>data\<close>
  at all: \<open>GetStringBytes\<close> gives the empty slice for both, the empty slice decodes to
  no bytes, and \<open>Decode\<close> returns the signals of an all-zero payload instead of a schema
  error.
\<close>

theorem data_not_checked:
  \<open>DecodeValue example_DecodeToMap example_Converter
     ''{"meta":{},"frames":[{"id":100,"data":5}]}''
     (JObject [(''meta'', JObject []), (''frames'', JArray
        [JObject [(''id'', JNumber ''100''), (''data'', JNumber ''5'')]])])
     = (Ok [''RPM'' \<mapsto> [0, 0, 0, 0, 0, 0, 0, 0]], []) \<and>
   DecodeValue example_DecodeToMap example_Converter
     ''{"meta":{},"frames":[{"id":100}]}''
     (JObject [(''meta'', JObject []), (''frames'', JArray [JObject [(''id'', JNumber ''100'')]])])
     = (Ok [''RPM'' \<mapsto> [0, 0, 0, 0, 0, 0, 0, 0]], [])\<close>
  by (simp add: eval_defs)

text \<open>
  C5, at an input whose \<open>id\<close> does not fit 32 bits. 4294967396 is \<open>2 ^ 32 + 100\<close>:
  \<open>Uint\<close> accepts it, \<open>uint32(tid)\<close> keeps the low 32 bits, and the frame is decoded
  with the schema of message 100 instead of being refused.
\<close>

theorem id_wraps_around:
  \<open>DecodeValue example_DecodeToMap example_Converter
     ''{"meta":{},"frames":[{"id":4294967396,"data":"00000a00"}]}''
     (JObject [(''meta'', JObject []), (''frames'', JArray
        [JObject [(''id'', JNumber ''4294967396''), (''data'', JString ''00000a00'')]])])
     = (Ok [''RPM'' \<mapsto> [0, 0, 10, 0, 0, 0, 0, 0]], [])\<close>
  by (simp add: eval_defs)

text \<open>
  C6. For every batch that parses, \<open>Decode\<close> succeeds; its result is what the schemas of
  the frames with a known ID write, in the order of the batch, into an empty map; each
  frame with an unknown ID only adds a log entry. When no frame has a known ID the
  result is the empty map, and still no error.
\<close>

theorem unknown_frames_are_skipped:
  assumes "parse_batch b v = Ok (pf, lg)"
  shows "DecodeValue D c b v =
           (Ok (extract_all D (messages c)
                  (filter (known (messages c)) (elems (Frames pf))) Map.empty),
            lg @ map (\<lambda>frame. ErrorCannotFindMessage (ID frame))
                   (filter (\<lambda>frame. \<not> known (messages c) frame) (elems (Frames pf)))) \<and>
         (filter (known (messages c)) (elems (Frames pf)) = [] \<longrightarrow>
            fst (DecodeValue D c b v) = Ok Map.empty)"
  using assms by (simp add: DecodeValue_def dispatch_filter)

text \<open>A batch of one unknown frame (ID 7) and one known frame (ID 100).\<close>

theorem unknown_frames_are_skipped_witness:
  "parse_batch ''b'' (JObject [(''meta'', JObject []), (''frames'', JArray
       [JObject [(''id'', JNumber ''7''), (''data'', JString ''ff'')],
        JObject [(''id'', JNumber ''100''), (''data'', JString ''00000a00'')]])])
     = Ok (\<lparr>Meta = Some Map.empty, Frames = Some
         [\<lparr>ID = 7, Data = [255, 0, 0, 0, 0, 0, 0, 0]\<rparr>,
          \<lparr>ID = 100, Data = [0, 0, 10, 0, 0, 0, 0, 0]\<rparr>]\<rparr>, []) \<and>
   DecodeValue example_DecodeToMap example_Converter ''b''
     (JObject [(''meta'', JObject []), (''frames'', JArray
       [JObject [(''id'', JNumber ''7''), (''data'', JString ''ff'')],
        JObject [(''id'', JNumber ''100''), (''data'', JString ''00000a00'')]])])
     = (Ok [''RPM'' \<mapsto> [0, 0, 10, 0, 0, 0, 0, 0]], [ErrorCannotFindMessage 7])"
proof -
  have p: "parse_batch ''b'' (JObject [(''meta'', JObject []), (''frames'', JArray
       [JObject [(''id'', JNumber ''7''), (''data'', JString ''ff'')],
        JObject [(''id'', JNumber ''100''), (''data'', JString ''00000a00'')]])])
     = Ok (\<lparr>Meta = Some Map.empty, Frames = Some
         [\<lparr>ID = 7, Data = [255, 0, 0, 0, 0, 0, 0, 0]\<rparr>,
          \<lparr>ID = 100, Data = [0, 0, 10, 0, 0, 0, 0, 0]\<rparr>]\<rparr>, [])"
    by (simp add: eval_defs)
  show ?thesis
    using unknown_frames_are_skipped[OF p, of example_DecodeToMap example_Converter] p
    by (simp add: known_def elems_def example_Converter_def example_DecodeToMap_def)
qed

text \<open>
  C7. When every source is read and compiled without an error, building the table from
  the empty table succeeds, and the entry of every ID is the first message with that ID
  among the messages of all sources in the order they were compiled: a later
  definition of the ID, in the same or in a later source, is dropped without an error.
\<close>

theorem first_source_wins:
  assumes "list_all (compiles Read Compile) files"
  shows "\<exists>mm. load_files Read Compile files Map.empty = Inr mm \<and>
           (\<forall>i. mm i = first_with_ID (compiled_messages Read Compile files) i)"
  using load_files_lookup[OF assms, of Map.empty] by simp

text \<open>
  Two sources that both define message 100: the table has the one of \<open>a.dbc\<close>, and
  message 200, which only \<open>b.dbc\<close> defines.
\<close>

theorem first_source_wins_witness:
  "\<exists>mm. load_files (\<lambda>file. Inr file)
           (\<lambda>dbcPath dbcContent.
              if dbcPath = ''a.dbc'' then Inr [\<lparr>MessageID = 100, Descriptor = ''A''\<rparr>]
              else Inr [\<lparr>MessageID = 100, Descriptor = ''B''\<rparr>,
                        \<lparr>MessageID = 200, Descriptor = ''C''\<rparr>])
           [''a.dbc'', ''b.dbc''] Map.empty = (Inr mm :: unit + (32 word \<rightharpoonup> string Message)) \<and>
         mm 100 = Some \<lparr>MessageID = 100, Descriptor = ''A''\<rparr> \<and>
         mm 200 = Some \<lparr>MessageID = 200, Descriptor = ''C''\<rparr> \<and>
         mm 300 = None"
proof -
  let ?Read = "\<lambda>file. (Inr file :: unit + string)"
  let ?Compile = "\<lambda>dbcPath dbcContent :: string.
        if dbcPath = ''a.dbc''
        then (Inr [\<lparr>MessageID = 100, Descriptor = ''A''\<rparr>] :: unit + string Message list)
        else Inr [\<lparr>MessageID = 100, Descriptor = ''B''\<rparr>,
                  \<lparr>MessageID = 200, Descriptor = ''C''\<rparr>]"
  have c: "list_all (compiles ?Read ?Compile) [''a.dbc'', ''b.dbc'']"
    by (simp add: compiles_def)
  from first_source_wins[OF c] obtain mm where
    m: "load_files ?Read ?Compile [''a.dbc'', ''b.dbc''] Map.empty = Inr mm" and
    l: "\<And>i. mm i = first_with_ID (compiled_messages ?Read ?Compile [''a.dbc'', ''b.dbc'']) i"
    by blast
  have "mm 100 = Some \<lparr>MessageID = 100, Descriptor = ''A''\<rparr>"
    by (simp add: l compiled_messages_def first_with_ID_def)
  moreover have "mm 200 = Some \<lparr>MessageID = 200, Descriptor = ''C''\<rparr>"
    by (simp add: l compiled_messages_def first_with_ID_def)
  moreover have "mm 300 = None"
    by (simp add: l compiled_messages_def first_with_ID_def)
  ultimately show ?thesis using m by blast
qed

text \<open>
  C8. For every frame element whose \<open>id\<close> is accepted and whose \<open>data\<close> is an
  even-length string of hexadecimal digits, the frame built from it has as payload the
  first eight of the decoded bytes, padded with zero bytes when there are fewer than
  eight; and that is the frame at the element's index in every batch the loop accepts.
\<close>

theorem payload_is_zero_padded_prefix:
  assumes "Uint (Value_Get rawFrame ''id'') = Ok tid"
    and "Value_Get rawFrame ''data'' = Some (JString s)"
    and "even (length s)" and "list_all is_hex s"
  shows "decode_frame b rawFrame zero_Frame =
           Ok \<lparr>ID = ucast tid, Data = payload8 (hex_bytes s)\<rparr> \<and>
         (\<forall>raw i fs. i < length raw \<and> raw ! i = rawFrame \<and>
             frames_loop b raw 0 (replicate (length raw) zero_Frame) = Ok fs \<longrightarrow>
             fs ! i = \<lparr>ID = ucast tid, Data = payload8 (hex_bytes s)\<rparr>)"
proof -
  have one: "decode_frame b rawFrame zero_Frame =
               Ok \<lparr>ID = ucast tid, Data = payload8 (hex_bytes s)\<rparr>"
    using assms by (simp add: decode_frame_def hex_Decode_valid copy_zero)
  moreover have "fs ! i = \<lparr>ID = ucast tid, Data = payload8 (hex_bytes s)\<rparr>"
    if "i < length raw" "raw ! i = rawFrame"
       "frames_loop b raw 0 (replicate (length raw) zero_Frame) = Ok fs"
    for raw i fs
    using frames_loop_fresh[OF that(3) that(1)] that(2) one by simp
  ultimately show ?thesis by blast
qed

text \<open>A payload of ten bytes, of which the first eight are kept.\<close>

theorem payload_is_zero_padded_prefix_witness:
  "decode_frame ''b''
     (JObject [(''id'', JNumber ''100''), (''data'', JString ''0102030405060708090A'')]) zero_Frame
   = Ok \<lparr>ID = 100, Data = [1, 2, 3, 4, 5, 6, 7, 8]\<rparr>"
proof -
  have u: "Uint (Value_Get (JObject [(''id'', JNumber ''100''),
             (''data'', JString ''0102030405060708090A'')]) ''id'') = Ok 100"
    by (simp add: Object_Get_def ParseUint64_def is_digit_def dec_value_def)
  have d: "Value_Get (JObject [(''id'', JNumber ''100''),
             (''data'', JString ''0102030405060708090A'')]) ''data'' =
           Some (JString ''0102030405060708090A'')"
    by (simp add: Object_Get_def)
  have e: "even (length ''0102030405060708090A'')"
    by simp
  have h: "list_all is_hex ''0102030405060708090A''"
    by (simp add: is_hex_def hex_digit_def)
  show ?thesis
    using payload_is_zero_padded_prefix[OF u d e h, of "''b''"]
    by (simp add: payload8_def hex_digit_def)
qed

text \<open>
  The runtime after the loop over the frames, when the method is read-only: the table
  is as before and only the log has grown.
\<close>

lemma dispatch_call_read_only:
  assumes "read_only M"
  shows "dispatch_call M frames result rt =
           (extract_all (\<lambda>m f r. fst (M m f r)) (messages (converter rt))
              (filter (known (messages (converter rt))) frames) result,
            rt\<lparr>logged := logged rt @ map (\<lambda>frame. ErrorCannotFindMessage (ID frame))
               (filter (\<lambda>frame. \<not> known (messages (converter rt)) frame) frames)\<rparr>)"
proof (induction frames arbitrary: result rt)
  case Nil
  then show ?case by simp
next
  case (Cons frame frames)
  show ?case
  proof (cases "messages (converter rt) (ID frame)")
    case None
    then show ?thesis
      by (simp add: Cons.IH known_def)
  next
    case (Some desc)
    obtain result' desc' where m: "M desc frame result = (result', desc')"
      by (cases "M desc frame result")
    from assms have "snd (M desc frame result) = desc"
      by (simp add: read_only_def)
    with m have d: "desc' = desc"
      by simp
    have t: "(messages (converter rt))(ID frame \<mapsto> desc) = messages (converter rt)"
      using Some by (simp add: map_upd_triv)
    have same: "rt\<lparr>converter :=
                  (converter rt)\<lparr>messages := (messages (converter rt))(ID frame \<mapsto> desc)\<rparr>\<rparr> = rt"
      unfolding t by simp
    have step: "dispatch_call M (frame # frames) result rt = dispatch_call M frames result' rt"
      by (simp only: dispatch_call.simps Some option.case m d prod.case same)
    have head: "known (messages (converter rt)) frame"
      using Some by (simp add: known_def)
    show ?thesis
      unfolding step Cons.IH by (simp add: head Some m)
  qed
qed

text \<open>With a read-only method, a call returns what the function \<open>Decode\<close> returns.\<close>

lemma Decode_call_read_only:
  assumes "read_only M"
  shows "Decode_call p ParseBytes M b rt =
           (fst (Decode (\<lambda>b. fst (ParseBytes p b)) (\<lambda>m f r. fst (M m f r)) (converter rt) b),
            rt\<lparr>logged := logged rt @
               snd (Decode (\<lambda>b. fst (ParseBytes p b)) (\<lambda>m f r. fst (M m f r)) (converter rt) b)\<rparr>)"
  by (cases "ParseBytes p b")
     (auto simp: Decode_call_def Decode_def DecodeValue_def dispatch_call_read_only[OF assms]
        dispatch_filter split: sum.splits result.splits prod.splits)

text \<open>
  C9. When \<open>DecodeToMap\<close> keeps to its contract and leaves the descriptor alone, the
  outcome of a \<open>Decode\<close> call on given bytes is the same after any sequence of earlier
  \<open>Decode\<close> calls on the same converter, in particular after a first call with the same
  bytes; and no call, nor any sequence of calls, changes the converter's table.
\<close>

theorem decode_is_repeatable:
  assumes "read_only M"
  shows "fst (Decode_call p ParseBytes M b (Decode_calls p ParseBytes M bs rt)) =
           fst (Decode_call p ParseBytes M b rt) \<and>
         converter (Decode_calls p ParseBytes M bs rt) = converter rt \<and>
         fst (Decode_call p ParseBytes M b (snd (Decode_call p ParseBytes M b rt))) =
           fst (Decode_call p ParseBytes M b rt) \<and>
         converter (snd (Decode_call p ParseBytes M b rt)) = converter rt"
proof -
  have step: "converter (snd (Decode_call p ParseBytes M x r)) = converter r" for x r
    by (simp add: Decode_call_read_only[OF assms])
  have res: "fst (Decode_call p ParseBytes M x r) =
             fst (Decode (\<lambda>b. fst (ParseBytes p b)) (\<lambda>m f r. fst (M m f r)) (converter r) x)"
    for x r
    by (simp add: Decode_call_read_only[OF assms])
  have all: "converter (Decode_calls p ParseBytes M xs r) = converter r" for xs r
    by (induction xs arbitrary: r) (simp_all add: step)
  show ?thesis by (simp add: res step all)
qed

text \<open>
  Two calls with the same bytes on the example converter, after a call with other
  bytes; the parser counts the documents it has parsed.
\<close>

theorem decode_is_repeatable_witness:
  "fst (Decode_call (0::nat)
          (\<lambda>p b. (if b = ''bad'' then Inl (SyntaxError ''bad'') else Inr (JObject
             [(''meta'', JObject []), (''frames'', JArray
                [JObject [(''id'', JNumber ''100''), (''data'', JString ''00000a00'')]])]), Suc p))
          (\<lambda>m f r. (example_DecodeToMap m f r, m)) ''b''
          (Decode_calls 0
             (\<lambda>p b. (if b = ''bad'' then Inl (SyntaxError ''bad'') else Inr (JObject
                [(''meta'', JObject []), (''frames'', JArray
                   [JObject [(''id'', JNumber ''100''), (''data'', JString ''00000a00'')]])]), Suc p))
             (\<lambda>m f r. (example_DecodeToMap m f r, m)) [''bad'', ''b'']
             \<lparr>converter = example_Converter, logged = []\<rparr>))
   = Ok [''RPM'' \<mapsto> [0, 0, 10, 0, 0, 0, 0, 0]] \<and>
   converter (Decode_calls 0
             (\<lambda>p b. (if b = ''bad'' then Inl (SyntaxError ''bad'') else Inr (JObject
                [(''meta'', JObject []), (''frames'', JArray
                   [JObject [(''id'', JNumber ''100''), (''data'', JString ''00000a00'')]])]), Suc p))
             (\<lambda>m f r. (example_DecodeToMap m f r, m)) [''bad'', ''b'']
             \<lparr>converter = example_Converter, logged = []\<rparr>) = example_Converter"
proof -
  let ?P = "\<lambda>(p::nat) b. (if b = ''bad'' then Inl (SyntaxError ''bad'') else Inr (JObject
             [(''meta'', JObject []), (''frames'', JArray
                [JObject [(''id'', JNumber ''100''), (''data'', JString ''00000a00'')]])]), Suc p)"
  let ?M = "\<lambda>m f r. (example_DecodeToMap m f r, m)"
  let ?rt = "\<lparr>converter = example_Converter, logged = []\<rparr>"
  have ro: "read_only ?M"
    by (simp add: read_only_def)
  have one: "fst (Decode_call 0 ?P ?M ''b'' ?rt) = Ok [''RPM'' \<mapsto> [0, 0, 10, 0, 0, 0, 0, 0]]"
    by (simp add: Decode_call_def parse_batch_def decode_frame_def Object_Get_def zero_Frame_def
        ParseUint64_def is_digit_def dec_value_def fromHexChar_def copy_def elems_def
        example_Converter_def example_DecodeToMap_def)
  show ?thesis
    using decode_is_repeatable[OF ro, of 0 ?P "''b''" "[''bad'', ''b'']" ?rt] one
    by simp
qed





end
